theory Spec2Isabelle
  imports Complex_Main "HOL-Library.AList"
begin

section \<open>Python values, exceptions and the object store\<close>

text \<open>
  The functions of \<^verbatim>\<open>search_validator.py\<close>, \<^verbatim>\<open>insert_text.py\<close> and
  \<^verbatim>\<open>search_similar.py\<close> are untyped: every argument may be any Python object.
  A value is one of the kinds below. A \<^verbatim>\<open>dict\<close> is mutable and passed by reference, so
  a dict value is an address into the heap of the state; the heap holds the items of the
  dict in insertion order, with string keys.
\<close>

type_synonym addr = nat

datatype pyval =
    PNone
  | PBool bool
  | PInt int
  | PFloat real
  | PStr string
  | PList "pyval list"
  | PDictRef addr

type_synonym dict = "(string \<times> pyval) list"

text \<open>
  Exceptions. \<open>ServiceError\<close> stands for any subclass of \<^verbatim>\<open>Exception\<close> raised inside
  the OpenAI or Pinecone client; \<open>BaseExn\<close> for a \<^verbatim>\<open>BaseException\<close> that is not an
  \<^verbatim>\<open>Exception\<close> (\<^verbatim>\<open>KeyboardInterrupt\<close>, \<^verbatim>\<open>SystemExit\<close>), which
  \<^verbatim>\<open>except Exception\<close> does not catch.
\<close>

datatype exn =
    ValueError string
  | TypeError string
  | IndexError string
  | AttributeError string
  | ServiceError string
  | BaseExn string

fun is_Exception :: "exn \<Rightarrow> bool" where
  "is_Exception (BaseExn _) = False"
| "is_Exception _ = True"

fun is_ValueError :: "exn \<Rightarrow> bool" where
  "is_ValueError (ValueError _) = True"
| "is_ValueError _ = False"

fun is_TypeError :: "exn \<Rightarrow> bool" where
  "is_TypeError (TypeError _) = True"
| "is_TypeError _ = False"

text \<open>\<^verbatim>\<open>str(e)\<close>: the message of the exception.\<close>

fun exn_str :: "exn \<Rightarrow> string" where
  "exn_str (ValueError m) = m"
| "exn_str (TypeError m) = m"
| "exn_str (IndexError m) = m"
| "exn_str (AttributeError m) = m"
| "exn_str (ServiceError m) = m"
| "exn_str (BaseExn m) = m"

subsection \<open>Built-in operations the source uses\<close>

text \<open>
  \<^verbatim>\<open>str.isspace\<close> on one character, for the code points below 256 that a \<open>char\<close>
  holds: tab, line feed, vertical tab, form feed, carriage return, the four separators
  \<^verbatim>\<open>\x1c\<close>..\<^verbatim>\<open>\x1f\<close>, space, \<^verbatim>\<open>\x85\<close> and \<^verbatim>\<open>\xa0\<close>.
\<close>

definition isspace :: "char \<Rightarrow> bool" where
  "isspace c = ((of_char c :: nat) \<in> {9, 10, 11, 12, 13, 28, 29, 30, 31, 32, 133, 160})"

text \<open>\<^verbatim>\<open>s.strip()\<close>: leading and trailing whitespace removed.\<close>

definition strip :: "string \<Rightarrow> string" where
  "strip s = rev (dropWhile isspace (rev (dropWhile isspace s)))"

text \<open>Truth value of an object (\<^verbatim>\<open>not x\<close> is its negation); a dict is true when non-empty.\<close>

fun truthy :: "(addr \<Rightarrow> dict) \<Rightarrow> pyval \<Rightarrow> bool" where
  "truthy h PNone = False"
| "truthy h (PBool b) = b"
| "truthy h (PInt n) = (n \<noteq> 0)"
| "truthy h (PFloat x) = (x \<noteq> 0)"
| "truthy h (PStr s) = (s \<noteq> [])"
| "truthy h (PList xs) = (xs \<noteq> [])"
| "truthy h (PDictRef a) = (h a \<noteq> [])"

text \<open>\<^verbatim>\<open>a or b\<close>: the first operand when it is true, else the second.\<close>

definition py_or :: "(addr \<Rightarrow> dict) \<Rightarrow> pyval \<Rightarrow> pyval \<Rightarrow> pyval" where
  "py_or h a b = (if truthy h a then a else b)"

fun isinstance_str :: "pyval \<Rightarrow> bool" where
  "isinstance_str (PStr _) = True"
| "isinstance_str _ = False"

text \<open>\<^verbatim>\<open>bool\<close> is a subclass of \<^verbatim>\<open>int\<close>: \<^verbatim>\<open>isinstance(True, int)\<close> holds.\<close>

fun isinstance_int :: "pyval \<Rightarrow> bool" where
  "isinstance_int (PInt _) = True"
| "isinstance_int (PBool _) = True"
| "isinstance_int _ = False"

fun isinstance_dict :: "pyval \<Rightarrow> bool" where
  "isinstance_dict (PDictRef _) = True"
| "isinstance_dict _ = False"

text \<open>The characters of a string object and the number an \<^verbatim>\<open>int\<close> object holds; both are
  read only behind the matching \<^verbatim>\<open>isinstance\<close> test.\<close>

fun str_of :: "pyval \<Rightarrow> string" where
  "str_of (PStr s) = s"
| "str_of _ = []"

fun int_of :: "pyval \<Rightarrow> int" where
  "int_of (PInt n) = n"
| "int_of (PBool b) = (if b then 1 else 0)"
| "int_of _ = 0"

text \<open>\<^verbatim>\<open>x == 0\<close>: numbers compare by value across \<^verbatim>\<open>bool\<close>, \<^verbatim>\<open>int\<close> and
  \<^verbatim>\<open>float\<close>; no other object equals \<^verbatim>\<open>0\<close>.\<close>

fun eq_zero :: "pyval \<Rightarrow> bool" where
  "eq_zero (PInt n) = (n = 0)"
| "eq_zero (PBool b) = (\<not> b)"
| "eq_zero (PFloat x) = (x = 0)"
| "eq_zero _ = False"

text \<open>\<^verbatim>\<open>d.get(k, default)\<close> on the items of a dict.\<close>

definition dict_get :: "dict \<Rightarrow> string \<Rightarrow> pyval \<Rightarrow> pyval" where
  "dict_get d k dflt = (case map_of d k of None \<Rightarrow> dflt | Some v \<Rightarrow> v)"

text \<open>\<^verbatim>\<open>os.getenv(k)\<close> and \<^verbatim>\<open>os.getenv(k, default)\<close>.\<close>

definition os_getenv :: "(string \<rightharpoonup> string) \<Rightarrow> string \<Rightarrow> pyval" where
  "os_getenv env k = (case env k of None \<Rightarrow> PNone | Some v \<Rightarrow> PStr v)"

definition os_getenv_default :: "(string \<rightharpoonup> string) \<Rightarrow> string \<Rightarrow> string \<Rightarrow> pyval" where
  "os_getenv_default env k dflt = (case env k of None \<Rightarrow> PStr dflt | Some v \<Rightarrow> PStr v)"

section \<open>\<^verbatim>\<open>search_validator.py\<close>\<close>

text \<open>A validator returns \<^verbatim>\<open>None\<close> or raises; it reads the heap only for the truth value
  of a dict argument.\<close>

definition validate_search_params ::
  "(addr \<Rightarrow> dict) \<Rightarrow> pyval \<Rightarrow> pyval \<Rightarrow> pyval \<Rightarrow> pyval \<Rightarrow> exn + unit" where
  "validate_search_params h query_text top_k api_key index_name =
     (if \<not> truthy h query_text \<or> \<not> isinstance_str query_text \<or> strip (str_of query_text) = []
      then Inl (ValueError ''Query text cannot be empty and must be a string'')
      else if \<not> isinstance_int top_k
      then Inl (TypeError ''top_k must be an integer'')
      else if int_of top_k \<le> 0
      then Inl (ValueError ''top_k must be a positive integer'')
      else if \<not> truthy h api_key
      then Inl (ValueError ''API key is required'')
      else if \<not> truthy h index_name
      then Inl (ValueError ''Index name is required'')
      else Inr ())"

definition validate_insert_params ::
  "(addr \<Rightarrow> dict) \<Rightarrow> pyval \<Rightarrow> pyval \<Rightarrow> pyval \<Rightarrow> pyval \<Rightarrow> exn + unit" where
  "validate_insert_params h text metadata api_key index_name =
     (if \<not> truthy h text \<or> \<not> isinstance_str text \<or> strip (str_of text) = []
      then Inl (ValueError ''Text cannot be empty and must be a string'')
      else if metadata \<noteq> PNone \<and> \<not> isinstance_dict metadata
      then Inl (TypeError ''Metadata must be a dictionary'')
      else if \<not> truthy h api_key
      then Inl (ValueError ''API key is required'')
      else if \<not> truthy h index_name
      then Inl (ValueError ''Index name is required'')
      else Inr ())"

section \<open>State, external services and the record of calls\<close>

text \<open>
  The state a call can read or change: the heap of dict objects (with the next unused
  address, for \<^verbatim>\<open>{}\<close>), \<^verbatim>\<open>os.environ\<close>, the module-wide \<^verbatim>\<open>openai.api_key\<close> and
  what was printed.
\<close>

record pystate =
  heap :: "addr \<Rightarrow> dict"
  next_free :: addr
  os_environ :: "string \<rightharpoonup> string"
  openai_api_key :: pyval
  stdout :: "string list"

type_synonym embedding = "real list"

text \<open>The index object \<^verbatim>\<open>pc.Index(index_name)\<close> or \<^verbatim>\<open>pc.Index(index_name, host=h)\<close>
  of the client \<^verbatim>\<open>Pinecone(api_key=k)\<close>.\<close>

record index_handle =
  ih_api_key :: pyval
  ih_name :: pyval
  ih_host :: "pyval option"

text \<open>
  One element of \<^verbatim>\<open>results.matches\<close>. What \<^verbatim>\<open>match.get("metadata", ..)\<close> finds is
  one of three things: no entry (the default is returned), an entry that is \<^verbatim>\<open>None\<close>,
  or an entry that is a dict.
\<close>

datatype metadata_entry =
    Metadata_missing
  | Metadata_None
  | Metadata_dict dict

record raw_match =
  match_id :: pyval
  match_score :: pyval
  match_metadata :: metadata_entry

text \<open>The dict \<^verbatim>\<open>{"id": .., "values": .., "metadata": ..}\<close> given to upsert: the metadata
  object and the items it holds when the call is made.\<close>

record upsert_vector =
  uv_id :: string
  uv_values :: embedding
  uv_metadata :: pyval
  uv_metadata_items :: dict

text \<open>The dict appended to \<^verbatim>\<open>similar_items\<close>.\<close>

record search_result =
  res_id :: pyval
  res_text :: pyval
  similarity_score :: pyval
  res_metadata :: dict

text \<open>
  The OpenAI and Pinecone clients, \<^verbatim>\<open>python-dotenv\<close> and \<^verbatim>\<open>uuid\<close> are not part of the
  repository: what they answer is a parameter. Each answer is an exception or a value.
  \<open>dotenv_file\<close> is the content of the file that \<^verbatim>\<open>load_dotenv()\<close> finds, \<open>uuid4\<close> the
  string \<^verbatim>\<open>str(uuid.uuid4())\<close> of this call.
\<close>

record world =
  dotenv_file :: "string \<rightharpoonup> string"
  uuid4 :: string
  pinecone_Pinecone :: "pyval \<Rightarrow> exn + unit"
  pinecone_Index :: "index_handle \<Rightarrow> exn + unit"
  describe_index_stats :: "index_handle \<Rightarrow> exn + dict"
  embeddings_create :: "pyval \<Rightarrow> pyval list \<Rightarrow> string \<Rightarrow> exn + embedding list"
  index_query :: "index_handle \<Rightarrow> pyval \<Rightarrow> embedding \<Rightarrow> pyval \<Rightarrow> bool \<Rightarrow> exn + raw_match list option"
  index_upsert :: "index_handle \<Rightarrow> upsert_vector list \<Rightarrow> pyval \<Rightarrow> exn + unit"

text \<open>Every call into a client library is recorded with its arguments, whether it fails or
  not.\<close>

datatype event =
    Pinecone_call pyval
  | Index_call index_handle
  | Describe_index_stats_call index_handle
  | Embeddings_create_call pyval "pyval list" string
  | Query_call index_handle pyval embedding pyval bool
  | Upsert_call index_handle "upsert_vector list" pyval



fun is_upsert_call :: "event \<Rightarrow> bool" where
  "is_upsert_call (Upsert_call _ _ _) = True"
| "is_upsert_call _ = False"

text \<open>
  A run of a piece of code from a state: the exception raised or the value returned, the
  calls made, and the state left behind.
\<close>

type_synonym 'a run = "(exn + 'a) \<times> event list \<times> pystate"
type_synonym 'a prog = "pystate \<Rightarrow> 'a run"

definition outcome :: "'a run \<Rightarrow> exn + 'a" where
  "outcome r = fst r"

definition calls :: "'a run \<Rightarrow> event list" where
  "calls r = fst (snd r)"

definition final :: "'a run \<Rightarrow> pystate" where
  "final r = snd (snd r)"

definition return :: "'a \<Rightarrow> 'a prog" where
  "return x s = (Inr x, [], s)"

definition raise :: "exn \<Rightarrow> 'a prog" where
  "raise e s = (Inl e, [], s)"

text \<open>A run that comes after the calls \<open>evs\<close>.\<close>

definition after :: "event list \<Rightarrow> 'a run \<Rightarrow> 'a run" where
  "after evs r = (outcome r, evs @ calls r, final r)"

text \<open>Sequencing: an exception of the first part ends the run.\<close>

definition and_then :: "'a prog \<Rightarrow> ('a \<Rightarrow> 'b prog) \<Rightarrow> 'b prog" where
  "and_then m f s =
     (case m s of
        (Inl e, evs, s') \<Rightarrow> (Inl e, evs, s')
      | (Inr x, evs, s') \<Rightarrow> after evs (f x s'))"

text \<open>A pure computation that may raise, and a call into a client library with its answer.\<close>

definition lift :: "exn + 'a \<Rightarrow> 'a prog" where
  "lift r s = (r, [], s)"

definition extern :: "event \<Rightarrow> exn + 'a \<Rightarrow> 'a prog" where
  "extern ev r s = (r, [ev], s)"

definition modify :: "(pystate \<Rightarrow> pystate) \<Rightarrow> unit prog" where
  "modify f s = (Inr (), [], f s)"

section \<open>Code shared by \<^verbatim>\<open>insert_text.py\<close> and \<^verbatim>\<open>search_similar.py\<close>\<close>

text \<open>The first statement of both functions: \<^verbatim>\<open>if index_name is None: index_name =
  os.getenv("PINECONE_INDEX_NAME", "msft-deep-search-oai-3-small")\<close>.\<close>

definition index_name_or_env :: "(string \<rightharpoonup> string) \<Rightarrow> pyval \<Rightarrow> pyval" where
  "index_name_or_env env index_name =
     (if index_name = PNone
      then os_getenv_default env ''PINECONE_INDEX_NAME'' ''msft-deep-search-oai-3-small''
      else index_name)"

text \<open>\<^verbatim>\<open>load_dotenv()\<close>: every variable of the file that \<^verbatim>\<open>os.environ\<close> does not have
  yet is set (the library's default \<^verbatim>\<open>override=False\<close>).\<close>

definition load_dotenv :: "world \<Rightarrow> unit prog" where
  "load_dotenv w = modify (\<lambda>s. s\<lparr>os_environ := dotenv_file w ++ os_environ s\<rparr>)"

text \<open>
  \<^verbatim>\<open>embed_text_openai(text, openai_api_key)\<close>, the same in both modules: sets the module-wide
  key, calls the embedding service once, and returns \<^verbatim>\<open>response.data[0].embedding\<close>.
\<close>

definition embed_text_openai :: "world \<Rightarrow> pyval \<Rightarrow> pyval \<Rightarrow> embedding prog" where
  "embed_text_openai w text key =
     and_then (modify (\<lambda>s. s\<lparr>openai_api_key := key\<rparr>)) (\<lambda>_.
     and_then (extern (Embeddings_create_call key [text] ''text-embedding-3-small'')
                 (embeddings_create w key [text] ''text-embedding-3-small'')) (\<lambda>data.
       case data of
         [] \<Rightarrow> raise (IndexError ''list index out of range'')
       | e # _ \<Rightarrow> return e))"

text \<open>
  The client and the index object, the same lines in both functions:
  \<^verbatim>\<open>pc = Pinecone(api_key=pinecone_api_key)\<close>, then \<^verbatim>\<open>pc.Index(index_name, host=pinecone_host)\<close>
  when \<^verbatim>\<open>pinecone_host\<close> is true and \<^verbatim>\<open>pc.Index(index_name)\<close> otherwise.
\<close>

definition open_index :: "world \<Rightarrow> pyval \<Rightarrow> pyval \<Rightarrow> pyval \<Rightarrow> index_handle prog" where
  "open_index w pinecone_api_key index_name pinecone_host s =
     and_then (extern (Pinecone_call pinecone_api_key) (pinecone_Pinecone w pinecone_api_key)) (\<lambda>_.
       let index = \<lparr>ih_api_key = pinecone_api_key, ih_name = index_name,
                    ih_host = (if truthy (heap s) pinecone_host then Some pinecone_host else None)\<rparr>
       in and_then (extern (Index_call index) (pinecone_Index w index)) (\<lambda>_. return index)) s"

section \<open>\<^verbatim>\<open>search_similar.py\<close>\<close>

text \<open>
  The \<^verbatim>\<open>try\<close> block of \<^verbatim>\<open>search_similar_texts\<close>. The value is whether the function
  returns \<^verbatim>\<open>[]\<close> at once. An \<^verbatim>\<open>Exception\<close> raised in the block is printed and the
  function goes on.
\<close>

definition index_stats_empty :: "world \<Rightarrow> index_handle \<Rightarrow> bool prog" where
  "index_stats_empty w index s =
     (case describe_index_stats w index of
        Inr stats \<Rightarrow>
          (Inr (eq_zero (dict_get stats ''total_vector_count'' (PInt 0))),
           [Describe_index_stats_call index], s)
      | Inl e \<Rightarrow>
          if is_Exception e
          then (Inr False, [Describe_index_stats_call index],
                s\<lparr>stdout := stdout s @ [''Error fetching index stats: '' @ exn_str e]\<rparr>)
          else (Inl e, [Describe_index_stats_call index], s))"

text \<open>
  The body of the loop over the matches. \<^verbatim>\<open>match.get("metadata", {})\<close> gives the empty
  dict only when the match has no metadata entry; on an entry that is \<^verbatim>\<open>None\<close> the next
  line, \<^verbatim>\<open>metadata.get("text", "No text available")\<close>, raises \<^verbatim>\<open>AttributeError\<close>
  (\<^verbatim>\<open>'NoneType' object has no attribute 'get'\<close>).
\<close>

definition similar_item :: "raw_match \<Rightarrow> exn + search_result" where
  "similar_item match =
     (let metadata = (case match_metadata match of
                        Metadata_missing \<Rightarrow> Metadata_dict []
                      | entry \<Rightarrow> entry)
      in case metadata of
           Metadata_dict d \<Rightarrow>
             Inr \<lparr>res_id = match_id match,
                  res_text = dict_get d ''text'' (PStr ''No text available''),
                  similarity_score = match_score match, res_metadata = d\<rparr>
         | _ \<Rightarrow> Inl (AttributeError ''NoneType object has no attribute get''))"

text \<open>The loop, which appends to \<^verbatim>\<open>similar_items\<close>; an exception of the body ends it.\<close>

fun append_items :: "raw_match list \<Rightarrow> search_result list \<Rightarrow> exn + search_result list" where
  "append_items [] similar_items = Inr similar_items"
| "append_items (match # matches) similar_items =
     (case similar_item match of
        Inl e \<Rightarrow> Inl e
      | Inr item \<Rightarrow> append_items matches (similar_items @ [item]))"

text \<open>
  \<^verbatim>\<open>search_similar_texts\<close>, in the order of its statements. \<open>search_on_index\<close> is the
  function from the \<^verbatim>\<open>try\<close> block to its last line, once the index object exists:
  the stats check, the embedding of the query, the similarity query and the loop.
\<close>

definition search_on_index ::
  "world \<Rightarrow> index_handle \<Rightarrow> pyval \<Rightarrow> pyval \<Rightarrow> pyval \<Rightarrow> pyval \<Rightarrow> search_result list prog" where
  "search_on_index w index query_text top_k namespace openai_key =
     and_then (index_stats_empty w index) (\<lambda>empty.
       if empty then return []
       else
         and_then (embed_text_openai w query_text openai_key) (\<lambda>query_embedding.
         and_then (extern (Query_call index namespace query_embedding top_k True)
                     (index_query w index namespace query_embedding top_k True)) (\<lambda>results.
           let matches = (case results of None \<Rightarrow> [] | Some ms \<Rightarrow> ms)
           in lift (append_items matches []))))"

text \<open>The two checks of the resolved keys and the making of the index object, then the
  rest.\<close>

definition search_with_keys ::
  "world \<Rightarrow> pyval \<Rightarrow> pyval \<Rightarrow> pyval \<Rightarrow> pyval \<Rightarrow> pyval \<Rightarrow> pyval \<Rightarrow> pyval \<Rightarrow> search_result list prog" where
  "search_with_keys w query_text top_k index_name namespace pinecone_api_key openai_key pinecone_host s =
     (if \<not> truthy (heap s) pinecone_api_key
      then raise (ValueError ''Pinecone API key not provided and not found in environment variables'')
      else if \<not> truthy (heap s) openai_key
      then raise (ValueError ''OpenAI API key not provided and not found in environment variables'')
      else
        and_then (open_index w pinecone_api_key index_name pinecone_host) (\<lambda>index.
          search_on_index w index query_text top_k namespace openai_key)) s"

text \<open>The whole function: the default of \<^verbatim>\<open>index_name\<close>, the validator,
  \<^verbatim>\<open>load_dotenv()\<close>, and the three \<^verbatim>\<open>x or os.getenv(..)\<close>.\<close>

definition search_similar_texts ::
  "world \<Rightarrow> pyval \<Rightarrow> pyval \<Rightarrow> pyval \<Rightarrow> pyval \<Rightarrow> pyval \<Rightarrow> pyval \<Rightarrow> pyval \<Rightarrow> search_result list prog" where
  "search_similar_texts w query_text top_k api_key index_name namespace openai_key pinecone_host s =
     (let index_name = index_name_or_env (os_environ s) index_name
      in and_then (lift (validate_search_params (heap s) query_text top_k api_key index_name)) (\<lambda>_.
         and_then (load_dotenv w) (\<lambda>_ s1.
           search_with_keys w query_text top_k index_name namespace
             (py_or (heap s1) api_key (os_getenv (os_environ s1) ''PINECONE_API_KEY''))
             (py_or (heap s1) openai_key (os_getenv (os_environ s1) ''OPENAI_API_KEY''))
             (py_or (heap s1) pinecone_host (os_getenv (os_environ s1) ''PINECONE_HOST''))
             s1)) s)"

section \<open>\<^verbatim>\<open>insert_text.py\<close>\<close>

text \<open>\<^verbatim>\<open>{}\<close> makes a new dict object; \<^verbatim>\<open>d[k] = v\<close> changes the object \<open>d\<close> refers to
  (an existing key keeps its place, a new key goes last) and raises \<^verbatim>\<open>TypeError\<close> on an
  object without item assignment.\<close>

definition new_dict :: "pyval prog" where
  "new_dict s =
     (Inr (PDictRef (next_free s)), [],
      s\<lparr>heap := (heap s)(next_free s := []), next_free := Suc (next_free s)\<rparr>)"

fun dict_setitem :: "pyval \<Rightarrow> string \<Rightarrow> pyval \<Rightarrow> unit prog" where
  "dict_setitem (PDictRef a) k v =
     modify (\<lambda>s. s\<lparr>heap := (heap s)(a := AList.update k v (heap s a))\<rparr>)"
| "dict_setitem _ k v = raise (TypeError ''object does not support item assignment'')"

fun items_of :: "(addr \<Rightarrow> dict) \<Rightarrow> pyval \<Rightarrow> dict" where
  "items_of h (PDictRef a) = h a"
| "items_of h _ = []"

text \<open>
  \<^verbatim>\<open>insert_text\<close>, in the order of its statements. \<open>insert_on_index\<close> is the function
  from \<^verbatim>\<open>vector_id = str(uuid.uuid4())\<close> to \<^verbatim>\<open>return vector_id\<close>, once the index
  object exists.
\<close>

definition insert_on_index ::
  "world \<Rightarrow> index_handle \<Rightarrow> pyval \<Rightarrow> pyval \<Rightarrow> pyval \<Rightarrow> pyval \<Rightarrow> string prog" where
  "insert_on_index w index text metadata namespace openai_key =
     (let vector_id = uuid4 w
      in and_then (embed_text_openai w text openai_key) (\<lambda>embedding.
         and_then (if metadata = PNone then new_dict else return metadata) (\<lambda>metadata.
         and_then (dict_setitem metadata ''text'' text) (\<lambda>_ s.
           and_then (extern
               (Upsert_call index
                  [\<lparr>uv_id = vector_id, uv_values = embedding, uv_metadata = metadata,
                    uv_metadata_items = items_of (heap s) metadata\<rparr>] namespace)
               (index_upsert w index
                  [\<lparr>uv_id = vector_id, uv_values = embedding, uv_metadata = metadata,
                    uv_metadata_items = items_of (heap s) metadata\<rparr>] namespace))
             (\<lambda>_. return vector_id) s))))"

definition insert_with_keys ::
  "world \<Rightarrow> pyval \<Rightarrow> pyval \<Rightarrow> pyval \<Rightarrow> pyval \<Rightarrow> pyval \<Rightarrow> pyval \<Rightarrow> pyval \<Rightarrow> string prog" where
  "insert_with_keys w text metadata index_name namespace pinecone_api_key openai_key pinecone_host s =
     (if \<not> truthy (heap s) pinecone_api_key
      then raise (ValueError ''Pinecone API key not provided and not found in environment variables'')
      else if \<not> truthy (heap s) openai_key
      then raise (ValueError ''OpenAI API key not provided and not found in environment variables'')
      else
        and_then (open_index w pinecone_api_key index_name pinecone_host) (\<lambda>index.
          insert_on_index w index text metadata namespace openai_key)) s"

definition insert_text ::
  "world \<Rightarrow> pyval \<Rightarrow> pyval \<Rightarrow> pyval \<Rightarrow> pyval \<Rightarrow> pyval \<Rightarrow> pyval \<Rightarrow> pyval \<Rightarrow> string prog" where
  "insert_text w text metadata api_key index_name namespace openai_key pinecone_host s =
     (let index_name = index_name_or_env (os_environ s) index_name
      in and_then (lift (validate_insert_params (heap s) text metadata api_key index_name)) (\<lambda>_.
           insert_with_keys w text metadata index_name namespace
             (py_or (heap s) api_key (os_getenv (os_environ s) ''PINECONE_API_KEY''))
             (py_or (heap s) openai_key (os_getenv (os_environ s) ''OPENAI_API_KEY''))
             (py_or (heap s) pinecone_host (os_getenv (os_environ s) ''PINECONE_HOST''))) s)"

section \<open>What the services answer to a recorded call\<close>

text \<open>The exception, if any, with which the client library answers a call.\<close>

definition exn_of :: "exn + 'a \<Rightarrow> exn option" where
  "exn_of r = (case r of Inl e \<Rightarrow> Some e | Inr _ \<Rightarrow> None)"

fun failure :: "world \<Rightarrow> event \<Rightarrow> exn option" where
  "failure w (Pinecone_call k) = exn_of (pinecone_Pinecone w k)"
| "failure w (Index_call index) = exn_of (pinecone_Index w index)"
| "failure w (Describe_index_stats_call index) = exn_of (describe_index_stats w index)"
| "failure w (Embeddings_create_call k inp m) = exn_of (embeddings_create w k inp m)"
| "failure w (Query_call index ns v k incl) = exn_of (index_query w index ns v k incl)"
| "failure w (Upsert_call index vs ns) = exn_of (index_upsert w index vs ns)"


text \<open>Whether a run ended in a \<^verbatim>\<open>TypeError\<close>.\<close>

definition raises_TypeError :: "'a run \<Rightarrow> bool" where
  "raises_TypeError r = (case outcome r of Inl e \<Rightarrow> is_TypeError e | Inr _ \<Rightarrow> False)"

section \<open>Concrete states and services\<close>

text \<open>A state with no dict object and an empty environment; one whose environment holds the
  store credential; one with the caller's metadata dict at address 0.\<close>

definition empty_state :: pystate where
  "empty_state =
     \<lparr>heap = (\<lambda>_. []), next_free = 0, os_environ = Map.empty, openai_api_key = PNone,
      stdout = []\<rparr>"

definition env_state :: pystate where
  "env_state = empty_state\<lparr>os_environ := [''PINECONE_API_KEY'' \<mapsto> ''pk-env'']\<rparr>"

definition metadata_state :: pystate where
  "metadata_state =
     empty_state\<lparr>heap := (\<lambda>_. [])(0 := [(''text'', PStr ''other''), (''category'', PStr ''x'')]),
                 next_free := 1\<rparr>"

text \<open>Three matches in the order of the store, with scores 0.95, 0.80 and 0.50: the first
  with a \<^verbatim>\<open>text\<close> field, the second with metadata that lacks it, the third without
  a metadata entry; and the three results they are normalized to. Then two matches of which
  the second has a metadata entry that is \<^verbatim>\<open>None\<close>.\<close>

definition three_matches :: "raw_match list" where
  "three_matches =
     [\<lparr>match_id = PStr ''a'', match_score = PFloat (95 / 100),
        match_metadata = Metadata_dict [(''text'', PStr ''first'')]\<rparr>,
      \<lparr>match_id = PStr ''b'', match_score = PFloat (80 / 100),
        match_metadata = Metadata_dict [(''category'', PStr ''x'')]\<rparr>,
      \<lparr>match_id = PStr ''c'', match_score = PFloat (50 / 100),
        match_metadata = Metadata_missing\<rparr>]"

definition three_results :: "search_result list" where
  "three_results =
     [\<lparr>res_id = PStr ''a'', res_text = PStr ''first'',
        similarity_score = PFloat (95 / 100), res_metadata = [(''text'', PStr ''first'')]\<rparr>,
      \<lparr>res_id = PStr ''b'', res_text = PStr ''No text available'',
        similarity_score = PFloat (80 / 100), res_metadata = [(''category'', PStr ''x'')]\<rparr>,
      \<lparr>res_id = PStr ''c'', res_text = PStr ''No text available'',
        similarity_score = PFloat (50 / 100), res_metadata = []\<rparr>]"

definition none_metadata_matches :: "raw_match list" where
  "none_metadata_matches =
     [\<lparr>match_id = PStr ''a'', match_score = PFloat (95 / 100),
        match_metadata = Metadata_dict [(''text'', PStr ''first'')]\<rparr>,
      \<lparr>match_id = PStr ''b'', match_score = PFloat (80 / 100),
        match_metadata = Metadata_None\<rparr>]"

text \<open>Services that answer every call; then the same with an empty index, with a store
  that returns the two matches above, and with one call failing.\<close>

definition good_world :: world where
  "good_world =
     \<lparr>dotenv_file = Map.empty,
      uuid4 = ''id-1'',
      pinecone_Pinecone = (\<lambda>_. Inr ()),
      pinecone_Index = (\<lambda>_. Inr ()),
      describe_index_stats = (\<lambda>_. Inr [(''total_vector_count'', PInt 3)]),
      embeddings_create = (\<lambda>_ _ _. Inr [[1 / 10, 2 / 10]]),
      index_query = (\<lambda>_ _ _ _ _. Inr (Some three_matches)),
      index_upsert = (\<lambda>_ _ _. Inr ())\<rparr>"

definition empty_index_world :: world where
  "empty_index_world =
     good_world\<lparr>describe_index_stats := (\<lambda>_. Inr [(''total_vector_count'', PInt 0)])\<rparr>"

definition stats_down_world :: world where
  "stats_down_world = good_world\<lparr>describe_index_stats := (\<lambda>_. Inl (ServiceError ''boom''))\<rparr>"

definition none_metadata_world :: world where
  "none_metadata_world =
     good_world\<lparr>index_query := (\<lambda>_ _ _ _ _. Inr (Some none_metadata_matches))\<rparr>"

definition embed_down_world :: world where
  "embed_down_world = good_world\<lparr>embeddings_create := (\<lambda>_ _ _. Inl (ServiceError ''rate limit''))\<rparr>"

definition example_index :: index_handle where
  "example_index = \<lparr>ih_api_key = PStr ''pk'', ih_name = PStr ''idx'', ih_host = None\<rparr>"

text \<open>The two calls on these inputs: a search for \<^verbatim>\<open>"hi"\<close> with \<^verbatim>\<open>top_k=5\<close>, and an
  insert of \<^verbatim>\<open>"hi"\<close> with the given metadata, both with explicit keys and index name.\<close>

definition example_search :: "world \<Rightarrow> search_result list run" where
  "example_search w =
     search_similar_texts w (PStr ''hi'') (PInt 5) (PStr ''pk'') (PStr ''idx'') (PStr [])
       (PStr ''sk'') PNone empty_state"

definition example_insert :: "world \<Rightarrow> pyval \<Rightarrow> string run" where
  "example_insert w metadata =
     insert_text w (PStr ''hi'') metadata (PStr ''pk'') (PStr ''idx'') (PStr [])
       (PStr ''sk'') PNone metadata_state"

section \<open>Rules for running code\<close>

lemma run_sel [simp]:
  "outcome (r, evs, s) = r" "calls (r, evs, s) = evs" "final (r, evs, s) = s"
  by (simp_all add: outcome_def calls_def final_def)

lemma after_run [simp]: "after evs (r, evs', s) = (r, evs @ evs', s)"
  by (simp add: after_def)

lemma after_sel [simp]:
  "outcome (after evs r) = outcome r" "calls (after evs r) = evs @ calls r"
  "final (after evs r) = final r"
  by (simp_all add: after_def)

lemma run_return [simp]: "return x s = (Inr x, [], s)"
  by (simp add: return_def)

lemma run_raise [simp]: "raise e s = (Inl e, [], s)"
  by (simp add: raise_def)

lemma after_Nil [simp]: "after [] r = r"
  by (simp add: after_def outcome_def calls_def final_def)

lemma and_then_return [simp]: "and_then (return x) f s = f x s"
  by (simp add: and_then_def)

lemma and_then_modify [simp]: "and_then (modify g) f s = f () (g s)"
  by (simp add: and_then_def modify_def)

lemma and_then_lift:
  "and_then (lift r) f s = (case r of Inl e \<Rightarrow> (Inl e, [], s) | Inr x \<Rightarrow> f x s)"
  by (simp add: and_then_def lift_def split: sum.split)

lemma and_then_extern:
  "and_then (extern ev r) f s =
     (case r of Inl e \<Rightarrow> (Inl e, [ev], s) | Inr x \<Rightarrow> after [ev] (f x s))"
  by (simp add: and_then_def extern_def split: sum.split)

lemma and_then_new_dict [simp]:
  "and_then new_dict f s =
     f (PDictRef (next_free s))
       (s\<lparr>heap := (heap s)(next_free s := []), next_free := Suc (next_free s)\<rparr>)"
  by (simp add: and_then_def new_dict_def)

lemma and_then_setitem [simp]:
  "and_then (dict_setitem (PDictRef a) k v) f s =
     f () (s\<lparr>heap := (heap s)(a := AList.update k v (heap s a))\<rparr>)"
  by simp

text \<open>The index object that \<open>open_index\<close> makes.\<close>

lemma and_then_open_index:
  "and_then (open_index w pk idx host) f s =
     (case pinecone_Pinecone w pk of
        Inl e \<Rightarrow> (Inl e, [Pinecone_call pk], s)
      | Inr _ \<Rightarrow>
         (case pinecone_Index w \<lparr>ih_api_key = pk, ih_name = idx,
                    ih_host = (if truthy (heap s) host then Some host else None)\<rparr> of
            Inl e \<Rightarrow> (Inl e, [Pinecone_call pk, Index_call \<lparr>ih_api_key = pk, ih_name = idx,
                    ih_host = (if truthy (heap s) host then Some host else None)\<rparr>], s)
          | Inr _ \<Rightarrow> after [Pinecone_call pk, Index_call \<lparr>ih_api_key = pk, ih_name = idx,
                    ih_host = (if truthy (heap s) host then Some host else None)\<rparr>]
                  (f \<lparr>ih_api_key = pk, ih_name = idx,
                    ih_host = (if truthy (heap s) host then Some host else None)\<rparr> s)))"
  by (simp add: and_then_def [of "open_index w pk idx host"] open_index_def Let_def
      and_then_extern split: sum.split)

lemma embed_text_openai_run:
  "embed_text_openai w text key s =
     (case embeddings_create w key [text] ''text-embedding-3-small'' of
        Inl e \<Rightarrow>
          (Inl e, [Embeddings_create_call key [text] ''text-embedding-3-small''],
           s\<lparr>openai_api_key := key\<rparr>)
      | Inr [] \<Rightarrow>
          (Inl (IndexError ''list index out of range''),
           [Embeddings_create_call key [text] ''text-embedding-3-small''],
           s\<lparr>openai_api_key := key\<rparr>)
      | Inr (e # _) \<Rightarrow>
          (Inr e, [Embeddings_create_call key [text] ''text-embedding-3-small''],
           s\<lparr>openai_api_key := key\<rparr>))"
  by (simp add: embed_text_openai_def and_then_extern split: sum.split list.split)

lemma and_then_embed:
  "and_then (embed_text_openai w text key) f s =
     (case embeddings_create w key [text] ''text-embedding-3-small'' of
        Inl e \<Rightarrow>
          (Inl e, [Embeddings_create_call key [text] ''text-embedding-3-small''],
           s\<lparr>openai_api_key := key\<rparr>)
      | Inr [] \<Rightarrow>
          (Inl (IndexError ''list index out of range''),
           [Embeddings_create_call key [text] ''text-embedding-3-small''],
           s\<lparr>openai_api_key := key\<rparr>)
      | Inr (e # _) \<Rightarrow>
          after [Embeddings_create_call key [text] ''text-embedding-3-small'']
            (f e (s\<lparr>openai_api_key := key\<rparr>)))"
  by (simp add: and_then_def [of "embed_text_openai w text key"] embed_text_openai_run
      split: sum.split list.split)

lemma and_then_stats:
  "and_then (index_stats_empty w index) f s =
     (case describe_index_stats w index of
        Inr stats \<Rightarrow>
          after [Describe_index_stats_call index]
            (f (eq_zero (dict_get stats ''total_vector_count'' (PInt 0))) s)
      | Inl e \<Rightarrow>
          if is_Exception e
          then after [Describe_index_stats_call index]
                 (f False (s\<lparr>stdout := stdout s @ [''Error fetching index stats: '' @ exn_str e]\<rparr>))
          else (Inl e, [Describe_index_stats_call index], s))"
  by (simp add: and_then_def index_stats_empty_def split: sum.split)

lemma run_lift [simp]: "lift r s = (r, [], s)"
  by (simp add: lift_def)

text \<open>The loop over the matches: with no metadata entry that is \<^verbatim>\<open>None\<close> it yields
  the results of the matches in their order; otherwise it raises.\<close>

lemma similar_item_cases:
  "similar_item m =
     (case match_metadata m of
        Metadata_missing \<Rightarrow>
          Inr \<lparr>res_id = match_id m, res_text = PStr ''No text available'',
               similarity_score = match_score m, res_metadata = []\<rparr>
      | Metadata_None \<Rightarrow> Inl (AttributeError ''NoneType object has no attribute get'')
      | Metadata_dict d \<Rightarrow>
          Inr \<lparr>res_id = match_id m,
               res_text = dict_get d ''text'' (PStr ''No text available''),
               similarity_score = match_score m, res_metadata = d\<rparr>)"
  by (simp add: similar_item_def dict_get_def split: metadata_entry.split)

lemma append_items_ok:
  "\<forall>m \<in> set ms. match_metadata m \<noteq> Metadata_None \<Longrightarrow>
   \<exists>res. append_items ms acc = Inr (acc @ res) \<and> map Inr res = map similar_item ms
     \<and> map similarity_score res = map match_score ms \<and> map res_id res = map match_id ms"
proof (induction ms arbitrary: acc)
  case Nil
  then show ?case by simp
next
  case (Cons m ms)
  from Cons.prems obtain item where item: "similar_item m = Inr item"
    "similarity_score item = match_score m" "res_id item = match_id m"
    by (cases "match_metadata m") (simp_all add: similar_item_cases)
  from Cons.prems have "\<forall>m \<in> set ms. match_metadata m \<noteq> Metadata_None" by simp
  from Cons.IH [OF this, of "acc @ [item]"]
  obtain res where res: "append_items ms (acc @ [item]) = Inr ((acc @ [item]) @ res)"
    "map Inr res = map similar_item ms"
    "map similarity_score res = map match_score ms" "map res_id res = map match_id ms"
    by blast
  show ?case
  proof (intro exI [of _ "item # res"] conjI)
    show "append_items (m # ms) acc = Inr (acc @ item # res)"
      using item(1) res(1) by simp
  qed (use item res in simp_all)
qed

lemma append_items_None:
  "\<exists>m \<in> set ms. match_metadata m = Metadata_None \<Longrightarrow>
   \<exists>msg. append_items ms acc = Inl (AttributeError msg)"
proof (induction ms arbitrary: acc)
  case Nil
  then show ?case by simp
next
  case (Cons m ms)
  show ?case
  proof (cases "similar_item m")
    case (Inl e)
    then show ?thesis
      by (cases "match_metadata m") (auto simp: similar_item_cases)
  next
    case (Inr item)
    then have "match_metadata m \<noteq> Metadata_None"
      by (auto simp: similar_item_cases)
    with Cons.prems have "\<exists>m \<in> set ms. match_metadata m = Metadata_None" by auto
    from Cons.IH [OF this, of "acc @ [item]"] Inr show ?thesis by simp
  qed
qed

lemmas search_on_index_run =
  search_on_index_def Let_def and_then_stats and_then_embed and_then_extern

lemmas insert_on_index_run =
  insert_on_index_def Let_def and_then_embed and_then_extern

subsection \<open>The validators\<close>

lemma strip_blank:
  assumes "\<forall>c \<in> set t. isspace c"
  shows "strip t = []"
proof -
  from assms have "dropWhile isspace t = []"
    using dropWhile_eq_Nil_conv [of isspace t] by blast
  then show ?thesis by (simp add: strip_def del: dropWhile_eq_Nil_conv)
qed

lemma strip_nonempty: "strip t \<noteq> [] \<Longrightarrow> t \<noteq> []"
  by (auto simp: strip_def)

lemma validate_insert_ok:
  "validate_insert_params h t m a i = Inr u \<Longrightarrow>
     isinstance_str t \<and> strip (str_of t) \<noteq> [] \<and> (m = PNone \<or> isinstance_dict m)"
  by (auto simp: validate_insert_params_def split: if_splits)

lemma validate_insert_key:
  "validate_insert_params h t m a i = Inr u \<Longrightarrow> truthy h a"
  by (auto simp: validate_insert_params_def split: if_splits)

lemma exn_of_None: "exn_of r = None \<Longrightarrow> \<exists>x. r = Inr x"
  by (cases r) (simp_all add: exn_of_def)

subsection \<open>The stages of a search and of an insert\<close>

lemma search_invalid:
  "validate_search_params (heap s) q k a (index_name_or_env (os_environ s) i) = Inl e \<Longrightarrow>
   search_similar_texts w q k a i n ok h s = (Inl e, [], s)"
  by (simp add: search_similar_texts_def Let_def and_then_lift)

lemma search_valid:
  "validate_search_params (heap s) q k a (index_name_or_env (os_environ s) i) = Inr u \<Longrightarrow>
   search_similar_texts w q k a i n ok h s =
     search_with_keys w q k (index_name_or_env (os_environ s) i) n
       (py_or (heap s) a (os_getenv (dotenv_file w ++ os_environ s) ''PINECONE_API_KEY''))
       (py_or (heap s) ok (os_getenv (dotenv_file w ++ os_environ s) ''OPENAI_API_KEY''))
       (py_or (heap s) h (os_getenv (dotenv_file w ++ os_environ s) ''PINECONE_HOST''))
       (s\<lparr>os_environ := dotenv_file w ++ os_environ s\<rparr>)"
  by (simp add: search_similar_texts_def Let_def and_then_lift load_dotenv_def)

lemma search_with_keys_cases:
  assumes "r = search_with_keys w q k idx n pk okk host s"
  shows "(\<exists>e. r = (Inl e, [], s))
       \<or> (\<exists>e. r = (Inl e, [Pinecone_call pk], s) \<and> pinecone_Pinecone w pk = Inl e)
       \<or> (\<exists>e H. r = (Inl e, [Pinecone_call pk, Index_call H], s) \<and> pinecone_Index w H = Inl e
              \<and> pinecone_Pinecone w pk = Inr ())
       \<or> (\<exists>H. r = after [Pinecone_call pk, Index_call H] (search_on_index w H q k n okk s)
              \<and> pinecone_Pinecone w pk = Inr () \<and> pinecone_Index w H = Inr ())"
  using assms
  by (auto simp: search_with_keys_def and_then_open_index split: sum.splits)

lemma search_cases:
  assumes "r = search_similar_texts w q k a i n ok h s"
  shows "(\<exists>e s1. r = (Inl e, [], s1) \<and> heap s1 = heap s \<and> stdout s1 = stdout s)
       \<or> (\<exists>e pk s1. r = (Inl e, [Pinecone_call pk], s1) \<and> pinecone_Pinecone w pk = Inl e)
       \<or> (\<exists>e pk H s1. r = (Inl e, [Pinecone_call pk, Index_call H], s1)
              \<and> pinecone_Index w H = Inl e \<and> pinecone_Pinecone w pk = Inr ())
       \<or> (\<exists>pk H okk s1.
              r = after [Pinecone_call pk, Index_call H] (search_on_index w H q k n okk s1)
              \<and> pinecone_Pinecone w pk = Inr () \<and> pinecone_Index w H = Inr ()
              \<and> heap s1 = heap s \<and> stdout s1 = stdout s)"
proof (cases "validate_search_params (heap s) q k a (index_name_or_env (os_environ s) i)")
  case (Inl e)
  then show ?thesis using assms by (simp add: search_invalid)
next
  case (Inr u)
  let ?s1 = "s\<lparr>os_environ := dotenv_file w ++ os_environ s\<rparr>"
  have h: "heap ?s1 = heap s" "stdout ?s1 = stdout s" by simp_all
  from search_with_keys_cases [OF assms [unfolded search_valid [OF Inr]]] h
  show ?thesis by metis
qed

lemma insert_invalid:
  "validate_insert_params (heap s) t m a (index_name_or_env (os_environ s) i) = Inl e \<Longrightarrow>
   insert_text w t m a i n ok h s = (Inl e, [], s)"
  by (simp add: insert_text_def Let_def and_then_lift)

lemma insert_valid:
  "validate_insert_params (heap s) t m a (index_name_or_env (os_environ s) i) = Inr u \<Longrightarrow>
   insert_text w t m a i n ok h s =
     insert_with_keys w t m (index_name_or_env (os_environ s) i) n
       (py_or (heap s) a (os_getenv (os_environ s) ''PINECONE_API_KEY''))
       (py_or (heap s) ok (os_getenv (os_environ s) ''OPENAI_API_KEY''))
       (py_or (heap s) h (os_getenv (os_environ s) ''PINECONE_HOST'')) s"
  by (simp add: insert_text_def Let_def and_then_lift)

lemma insert_with_keys_cases:
  assumes "r = insert_with_keys w t m idx n pk okk host s"
  shows "(\<exists>e. r = (Inl e, [], s))
       \<or> (\<exists>e. r = (Inl e, [Pinecone_call pk], s) \<and> pinecone_Pinecone w pk = Inl e)
       \<or> (\<exists>e H. r = (Inl e, [Pinecone_call pk, Index_call H], s) \<and> pinecone_Index w H = Inl e
              \<and> pinecone_Pinecone w pk = Inr ())
       \<or> (\<exists>H. r = after [Pinecone_call pk, Index_call H] (insert_on_index w H t m n okk s)
              \<and> pinecone_Pinecone w pk = Inr () \<and> pinecone_Index w H = Inr ())"
  using assms
  by (auto simp: insert_with_keys_def and_then_open_index split: sum.splits)

lemma insert_cases:
  assumes "r = insert_text w t m a i n ok h s"
  shows "(\<exists>e. r = (Inl e, [], s))
       \<or> (\<exists>e pk. r = (Inl e, [Pinecone_call pk], s) \<and> pinecone_Pinecone w pk = Inl e)
       \<or> (\<exists>e pk H. r = (Inl e, [Pinecone_call pk, Index_call H], s)
              \<and> pinecone_Index w H = Inl e \<and> pinecone_Pinecone w pk = Inr ())
       \<or> (\<exists>pk H okk.
              r = after [Pinecone_call pk, Index_call H] (insert_on_index w H t m n okk s)
              \<and> pinecone_Pinecone w pk = Inr () \<and> pinecone_Index w H = Inr ()
              \<and> (m \<noteq> PNone \<longrightarrow> isinstance_dict m))"
proof (cases "validate_insert_params (heap s) t m a (index_name_or_env (os_environ s) i)")
  case (Inl e)
  then show ?thesis using assms by (simp add: insert_invalid)
next
  case (Inr u)
  from validate_insert_ok [OF Inr] have m: "m \<noteq> PNone \<longrightarrow> isinstance_dict m" by blast
  from insert_with_keys_cases [OF assms [unfolded insert_valid [OF Inr]]] m
  show ?thesis by metis
qed

lemmas eval_defs =
  search_similar_texts_def search_with_keys_def search_on_index_run
  insert_text_def insert_with_keys_def insert_on_index_def and_then_open_index and_then_lift
  load_dotenv_def validate_search_params_def validate_insert_params_def strip_def isspace_def
  index_name_or_env_def py_or_def os_getenv_def os_getenv_default_def dict_get_def
  similar_item_def exn_of_def raises_TypeError_def
  empty_state_def env_state_def metadata_state_def three_matches_def three_results_def
  none_metadata_matches_def good_world_def none_metadata_world_def
  empty_index_world_def stats_down_world_def embed_down_world_def example_index_def
  example_search_def example_insert_def

subsection \<open>Facts about the two functions once the index object exists\<close>


lemma search_on_index_results:
  "r = search_on_index w index q k n ok s \<Longrightarrow>
   Query_call index' n' v k' incl \<in> set (calls r) \<Longrightarrow>
   index_query w index' n' v k' incl = Inr results \<Longrightarrow>
   outcome r = append_items (case results of None \<Rightarrow> [] | Some ms \<Rightarrow> ms) []"
  by (auto simp: search_on_index_run split: sum.splits list.splits if_splits)




lemma insert_on_index_embed_fails:
  "r = insert_on_index w index t m n ok s \<Longrightarrow> m \<noteq> PNone \<longrightarrow> isinstance_dict m \<Longrightarrow>
   Embeddings_create_call key inp mdl \<in> set (calls r) \<Longrightarrow>
   \<forall>emb rest. embeddings_create w key inp mdl \<noteq> Inr (emb # rest) \<Longrightarrow>
   (\<exists>e. outcome r = Inl e) \<and> (\<forall>e. embeddings_create w key inp mdl = Inl e \<longrightarrow> outcome r = Inl e)
   \<and> (\<forall>ev \<in> set (calls r). \<not> is_upsert_call ev) \<and> heap (final r) = heap s"
  by (cases m)
    (auto simp: insert_on_index_run split: sum.splits list.splits if_splits)

lemma insert_on_index_payload:
  "r = insert_on_index w index t m n ok s \<Longrightarrow> m \<noteq> PNone \<longrightarrow> isinstance_dict m \<Longrightarrow>
   (\<forall>ev \<in> set (calls r). is_upsert_call ev \<longrightarrow>
      (\<exists>emb mo. ev = Upsert_call index
          [\<lparr>uv_id = uuid4 w, uv_values = emb, uv_metadata = mo,
            uv_metadata_items = AList.update ''text'' t (items_of (heap s) m)\<rparr>] n))
   \<and> (\<forall>vid. outcome r = Inr vid \<longrightarrow> vid = uuid4 w \<and> (\<exists>ev \<in> set (calls r). is_upsert_call ev))"
  by (cases m)
    (auto simp: insert_on_index_run split: sum.splits list.splits if_splits)

lemma insert_on_index_in_place:
  "r = insert_on_index w index t (PDictRef a) n ok s \<Longrightarrow> outcome r = Inr vid \<Longrightarrow>
   heap (final r) a = AList.update ''text'' t (heap s a)
   \<and> (\<forall>b. b \<noteq> a \<longrightarrow> heap (final r) b = heap s b)
   \<and> next_free (final r) = next_free s
   \<and> (\<exists>emb. Upsert_call index
          [\<lparr>uv_id = vid, uv_values = emb, uv_metadata = PDictRef a,
            uv_metadata_items = heap (final r) a\<rparr>] n \<in> set (calls r))"
  by (auto simp: insert_on_index_run split: sum.splits list.splits if_splits)




lemma insert_on_index_ok:
  "r = insert_on_index w index t m n ok s \<Longrightarrow> m \<noteq> PNone \<longrightarrow> isinstance_dict m \<Longrightarrow>
   embeddings_create w ok [t] ''text-embedding-3-small'' = Inr (emb # rest) \<Longrightarrow>
   \<forall>vs. index_upsert w index vs n = Inr () \<Longrightarrow>
   outcome r = Inr (uuid4 w)
   \<and> (\<exists>mo. Upsert_call index
          [\<lparr>uv_id = uuid4 w, uv_values = emb, uv_metadata = mo,
            uv_metadata_items = AList.update ''text'' t (items_of (heap s) m)\<rparr>] n
        \<in> set (calls r))"
  by (cases m)
    (auto simp: insert_on_index_run split: sum.splits list.splits if_splits)

lemma insert_with_keys_ok:
  "truthy (heap s) pk \<Longrightarrow> truthy (heap s) okk \<Longrightarrow>
   pinecone_Pinecone w pk = Inr () \<Longrightarrow> \<forall>H. pinecone_Index w H = Inr () \<Longrightarrow>
   \<exists>H. insert_with_keys w t m idx n pk okk host s =
     after [Pinecone_call pk, Index_call H] (insert_on_index w H t m n okk s)"
  by (auto simp: insert_with_keys_def and_then_open_index)

section \<open>Validation before any call\<close>

text \<open>
  Claim C1. When the text is empty or consists of whitespace only, both \<open>insert_text\<close> and
  \<open>search_similar_texts\<close> (with the text as query) raise a \<^verbatim>\<open>ValueError\<close>, whatever
  the other arguments, the services and the state are; no call into a client library is
  made and the state is left as it was.
\<close>

theorem blank_text_raises_ValueError_without_calls:
  assumes "\<forall>c \<in> set t. isspace c"
    and "ri = insert_text w (PStr t) metadata api_key index_name namespace openai_key pinecone_host s"
    and "rs = search_similar_texts w (PStr t) top_k api_key' index_name' namespace' openai_key'
                pinecone_host' s'"
  shows "outcome ri = Inl (ValueError ''Text cannot be empty and must be a string'')
       \<and> calls ri = [] \<and> final ri = s
       \<and> outcome rs = Inl (ValueError ''Query text cannot be empty and must be a string'')
       \<and> calls rs = [] \<and> final rs = s'"
proof -
  from assms(1) have blank: "strip t = []" by (rule strip_blank)
  have "validate_insert_params (heap s) (PStr t) metadata api_key
          (index_name_or_env (os_environ s) index_name)
        = Inl (ValueError ''Text cannot be empty and must be a string'')"
    by (simp add: validate_insert_params_def blank)
  from insert_invalid [OF this] assms(2)
  have i: "ri = (Inl (ValueError ''Text cannot be empty and must be a string''), [], s)"
    by simp
  have "validate_search_params (heap s') (PStr t) top_k api_key'
          (index_name_or_env (os_environ s') index_name')
        = Inl (ValueError ''Query text cannot be empty and must be a string'')"
    by (simp add: validate_search_params_def blank)
  from search_invalid [OF this] assms(3)
  have "rs = (Inl (ValueError ''Query text cannot be empty and must be a string''), [], s')"
    by simp
  with i show ?thesis by simp
qed

theorem blank_text_raises_ValueError_without_calls_witness:
  "outcome (example_insert good_world PNone) \<noteq> Inl (ValueError ''Text cannot be empty and must be a string'')
   \<and> outcome (insert_text good_world (PStr ''   '') PNone (PStr ''pk'') (PStr ''idx'') (PStr [])
        (PStr ''sk'') PNone empty_state)
       = Inl (ValueError ''Text cannot be empty and must be a string'')
   \<and> calls (insert_text good_world (PStr ''   '') PNone (PStr ''pk'') (PStr ''idx'') (PStr [])
        (PStr ''sk'') PNone empty_state) = []
   \<and> outcome (search_similar_texts good_world (PStr ''   '') (PInt 5) (PStr ''pk'') (PStr ''idx'')
        (PStr []) (PStr ''sk'') PNone empty_state)
       = Inl (ValueError ''Query text cannot be empty and must be a string'')
   \<and> calls (search_similar_texts good_world (PStr ''   '') (PInt 5) (PStr ''pk'') (PStr ''idx'')
        (PStr []) (PStr ''sk'') PNone empty_state) = []"
proof -
  have blank: "\<forall>c \<in> set ''   ''. isspace c"
    by (simp add: isspace_def)
  have other: "outcome (example_insert good_world PNone)
      \<noteq> Inl (ValueError ''Text cannot be empty and must be a string'')"
    by (simp add: eval_defs)
  from blank_text_raises_ValueError_without_calls [OF blank refl refl] other
  show ?thesis by blast
qed

text \<open>
  Claim C6, as amended. For a search whose query text is a string that is not empty after
  trimming, a \<^verbatim>\<open>top_k\<close> that is not an \<^verbatim>\<open>int\<close> raises the \<^verbatim>\<open>TypeError\<close> and a
  \<^verbatim>\<open>top_k\<close> that is an \<^verbatim>\<open>int\<close> at most zero raises the \<^verbatim>\<open>ValueError\<close>; in both
  cases no call is made, the embedding service included, and the state is unchanged.
  (The query text is checked first: when it is invalid its \<^verbatim>\<open>ValueError\<close> is raised
  whatever \<^verbatim>\<open>top_k\<close> is.)
\<close>

theorem top_k_errors_by_kind:
  assumes "r = search_similar_texts w query_text top_k api_key index_name namespace openai_key
                 pinecone_host s"
    and "isinstance_str query_text" and "strip (str_of query_text) \<noteq> []"
  shows "(\<not> isinstance_int top_k \<longrightarrow>
            outcome r = Inl (TypeError ''top_k must be an integer'') \<and> calls r = [] \<and> final r = s)
       \<and> (isinstance_int top_k \<and> int_of top_k \<le> 0 \<longrightarrow>
            outcome r = Inl (ValueError ''top_k must be a positive integer'') \<and> calls r = []
            \<and> final r = s)"
proof -
  from assms(2,3) have q: "truthy (heap s) query_text"
    by (cases query_text) (auto dest: strip_nonempty)
  show ?thesis
  proof (intro conjI impI)
    assume k: "\<not> isinstance_int top_k"
    have "validate_search_params (heap s) query_text top_k api_key
            (index_name_or_env (os_environ s) index_name)
          = Inl (TypeError ''top_k must be an integer'')"
      using q assms(2,3) k by (simp add: validate_search_params_def)
    from search_invalid [OF this] assms(1)
    have "r = (Inl (TypeError ''top_k must be an integer''), [], s)" by simp
    then show "outcome r = Inl (TypeError ''top_k must be an integer'')" "calls r = []"
      "final r = s" by simp_all
  next
    assume k: "isinstance_int top_k \<and> int_of top_k \<le> 0"
    have "validate_search_params (heap s) query_text top_k api_key
            (index_name_or_env (os_environ s) index_name)
          = Inl (ValueError ''top_k must be a positive integer'')"
      using q assms(2,3) k by (simp add: validate_search_params_def)
    from search_invalid [OF this] assms(1)
    have "r = (Inl (ValueError ''top_k must be a positive integer''), [], s)" by simp
    then show "outcome r = Inl (ValueError ''top_k must be a positive integer'')" "calls r = []"
      "final r = s" by simp_all
  qed
qed

theorem top_k_errors_by_kind_witness:
  "outcome (search_similar_texts good_world (PStr ''hi'') (PStr ''invalid'') (PStr ''pk'')
      (PStr ''idx'') (PStr []) (PStr ''sk'') PNone empty_state)
     = Inl (TypeError ''top_k must be an integer'')
   \<and> outcome (search_similar_texts good_world (PStr ''hi'') (PInt 0) (PStr ''pk'')
      (PStr ''idx'') (PStr []) (PStr ''sk'') PNone empty_state)
     = Inl (ValueError ''top_k must be a positive integer'')
   \<and> calls (search_similar_texts good_world (PStr ''hi'') (PInt 0) (PStr ''pk'')
      (PStr ''idx'') (PStr []) (PStr ''sk'') PNone empty_state) = []"
proof -
  have q: "isinstance_str (PStr ''hi'')" "strip (str_of (PStr ''hi'')) \<noteq> []"
    by (simp_all add: strip_def isspace_def)
  have k1: "\<not> isinstance_int (PStr ''invalid'')" by simp
  have k2: "isinstance_int (PInt 0) \<and> int_of (PInt 0) \<le> 0" by simp
  from top_k_errors_by_kind [where w = good_world and top_k = "PStr ''invalid''", OF refl q] k1
    top_k_errors_by_kind [where w = good_world and top_k = "PInt 0", OF refl q] k2
  show ?thesis by blast
qed

text \<open>
  The claim as stated fails: with an empty query text and the non-integer \<^verbatim>\<open>top_k\<close>
  \<^verbatim>\<open>"invalid"\<close> the search raises the \<^verbatim>\<open>ValueError\<close> of the query text, not a
  \<^verbatim>\<open>TypeError\<close>.
\<close>

theorem top_k_TypeError_counterexample:
  "\<not> isinstance_int (PStr ''invalid'')
   \<and> \<not> raises_TypeError
         (search_similar_texts good_world (PStr []) (PStr ''invalid'') (PStr ''pk'')
            (PStr ''idx'') (PStr []) (PStr ''sk'') PNone empty_state)
   \<and> outcome
         (search_similar_texts good_world (PStr []) (PStr ''invalid'') (PStr ''pk'')
            (PStr ''idx'') (PStr []) (PStr ''sk'') PNone empty_state)
       = Inl (ValueError ''Query text cannot be empty and must be a string'')"
  by (simp add: eval_defs)

section \<open>The search path\<close>



text \<open>
  Claim C7, evaluated on the code. Whenever a search issues the similarity query and the
  store answers with a list of matches: if no match has a metadata entry that is
  \<^verbatim>\<open>None\<close>, the search returns one result per match, in the order of the store, each the
  normalization of its match with the id and the similarity score unchanged, and nothing is
  sorted; if some match has a metadata entry that is \<^verbatim>\<open>None\<close>, the search raises
  \<^verbatim>\<open>AttributeError\<close> and returns no result at all.
\<close>

theorem results_mirror_store_order:
  assumes "r = search_similar_texts w query_text top_k api_key index_name namespace openai_key
                 pinecone_host s"
    and "Query_call index ns v k incl \<in> set (calls r)"
    and "index_query w index ns v k incl = Inr results"
    and "matches = (case results of None \<Rightarrow> [] | Some ms \<Rightarrow> ms)"
  shows "(list_all (\<lambda>m. match_metadata m \<noteq> Metadata_None) matches \<longrightarrow>
            (\<exists>res. outcome r = Inr res \<and> length res = length matches
               \<and> map Inr res = map similar_item matches
               \<and> map similarity_score res = map match_score matches
               \<and> map res_id res = map match_id matches))
       \<and> (\<not> list_all (\<lambda>m. match_metadata m \<noteq> Metadata_None) matches \<longrightarrow>
            (\<exists>msg. outcome r = Inl (AttributeError msg)))"
proof -
  have out: "outcome r = append_items matches []"
    using search_cases [OF assms(1)]
  proof (elim disjE exE conjE, goal_cases)
    case (1 e s1)
    with assms(2) show ?case by simp
  next
    case (2 e pk s1)
    with assms(2) show ?case by simp
  next
    case (3 e pk H s1)
    with assms(2) show ?case by simp
  next
    case prems: (4 pk H okk s1)
    from assms(2) prems(1)
    have "Query_call index ns v k incl
            \<in> set (calls (search_on_index w H query_text top_k namespace okk s1))"
      by simp
    from search_on_index_results [OF refl this assms(3)] prems(1) assms(4)
    show ?case by simp
  qed
  show ?thesis
  proof (intro conjI impI)
    assume "list_all (\<lambda>m. match_metadata m \<noteq> Metadata_None) matches"
    then have "\<forall>m \<in> set matches. match_metadata m \<noteq> Metadata_None"
      by (simp add: list_all_iff)
    from append_items_ok [OF this, of "[]"]
    obtain res where res: "append_items matches [] = Inr res"
      "map Inr res = map similar_item matches"
      "map similarity_score res = map match_score matches" "map res_id res = map match_id matches"
      by auto
    from res(2) have "length res = length matches"
      by (rule map_eq_imp_length_eq)
    with res out
    show "\<exists>res. outcome r = Inr res \<and> length res = length matches
               \<and> map Inr res = map similar_item matches
               \<and> map similarity_score res = map match_score matches
               \<and> map res_id res = map match_id matches"
      by auto
  next
    assume "\<not> list_all (\<lambda>m. match_metadata m \<noteq> Metadata_None) matches"
    then have "\<exists>m \<in> set matches. match_metadata m = Metadata_None"
      by (simp add: list_all_iff)
    from append_items_None [OF this, of "[]"] out
    show "\<exists>msg. outcome r = Inl (AttributeError msg)" by simp
  qed
qed

theorem results_mirror_store_order_witness:
  "(\<exists>res. outcome (example_search good_world) = Inr res \<and> length res = length three_matches
      \<and> map Inr res = map similar_item three_matches
      \<and> map similarity_score res = map match_score three_matches
      \<and> map res_id res = map match_id three_matches)
   \<and> outcome (example_search good_world) = Inr three_results
   \<and> (\<exists>msg. outcome (example_search none_metadata_world) = Inl (AttributeError msg))"
proof -
  let ?q = "Query_call example_index (PStr []) [1 / 10, 2 / 10] (PInt 5) True"
  have 1: "?q \<in> set (calls (example_search good_world))"
    "?q \<in> set (calls (example_search none_metadata_world))"
    by (simp_all add: eval_defs)
  have 2: "index_query good_world example_index (PStr []) [1 / 10, 2 / 10] (PInt 5) True
             = Inr (Some three_matches)"
    "index_query none_metadata_world example_index (PStr []) [1 / 10, 2 / 10] (PInt 5) True
             = Inr (Some none_metadata_matches)"
    by (simp_all add: good_world_def none_metadata_world_def)
  have 3: "three_matches = (case Some three_matches of None \<Rightarrow> [] | Some ms \<Rightarrow> ms)"
    "none_metadata_matches = (case Some none_metadata_matches of None \<Rightarrow> [] | Some ms \<Rightarrow> ms)"
    by simp_all
  have 4: "list_all (\<lambda>m. match_metadata m \<noteq> Metadata_None) three_matches"
    "\<not> list_all (\<lambda>m. match_metadata m \<noteq> Metadata_None) none_metadata_matches"
    by (simp_all add: three_matches_def none_metadata_matches_def)
  have 5: "outcome (example_search good_world) = Inr three_results"
    by (simp add: eval_defs)
  from results_mirror_store_order [OF example_search_def 1(1) 2(1) 3(1)] 4(1)
    results_mirror_store_order [OF example_search_def 1(2) 2(2) 3(2)] 4(2) 5
  show ?thesis by blast
qed

text \<open>
  Claim C8, evaluated on the code. A match with no metadata entry, or whose metadata is a
  dict without the key \<^verbatim>\<open>text\<close>, is normalized to a result whose text is
  \<^verbatim>\<open>"No text available"\<close>, and nothing is raised. A match whose metadata entry is
  \<^verbatim>\<open>None\<close> also has no \<^verbatim>\<open>text\<close> field, but there the normalizer raises
  \<^verbatim>\<open>AttributeError\<close>: the default \<^verbatim>\<open>{}\<close> of \<^verbatim>\<open>match.get("metadata", {})\<close> is used
  only when the entry is missing.
\<close>

theorem sentinel_for_missing_text_unless_metadata_None:
  "(match_metadata m = Metadata_missing
      \<or> (\<exists>d. match_metadata m = Metadata_dict d \<and> ''text'' \<notin> fst ` set d) \<longrightarrow>
      (\<exists>res. similar_item m = Inr res \<and> res_text res = PStr ''No text available''))
   \<and> (match_metadata m = Metadata_None \<longrightarrow>
      (\<exists>msg. similar_item m = Inl (AttributeError msg)))"
proof (intro conjI impI)
  assume "match_metadata m = Metadata_missing
      \<or> (\<exists>d. match_metadata m = Metadata_dict d \<and> ''text'' \<notin> fst ` set d)"
  then show "\<exists>res. similar_item m = Inr res \<and> res_text res = PStr ''No text available''"
  proof (elim disjE exE conjE)
    assume "match_metadata m = Metadata_missing"
    then show ?thesis by (simp add: similar_item_cases)
  next
    fix d
    assume d: "match_metadata m = Metadata_dict d" and "''text'' \<notin> fst ` set d"
    then have "map_of d ''text'' = None"
      by (simp add: map_of_eq_None_iff)
    with d show ?thesis by (simp add: similar_item_cases dict_get_def)
  qed
next
  assume "match_metadata m = Metadata_None"
  then show "\<exists>msg. similar_item m = Inl (AttributeError msg)"
    by (simp add: similar_item_cases)
qed

theorem sentinel_for_missing_text_unless_metadata_None_witness:
  "(\<exists>res. similar_item (three_matches ! 1) = Inr res \<and> res_text res = PStr ''No text available'')
   \<and> (\<exists>res. similar_item (three_matches ! 2) = Inr res \<and> res_text res = PStr ''No text available'')
   \<and> (\<exists>msg. similar_item (none_metadata_matches ! 1) = Inl (AttributeError msg))
   \<and> (\<exists>res. similar_item (three_matches ! 0) = Inr res \<and> res_text res = PStr ''first'')"
proof -
  have 1: "\<exists>d. match_metadata (three_matches ! 1) = Metadata_dict d \<and> ''text'' \<notin> fst ` set d"
    by (simp add: three_matches_def)
  have 2: "match_metadata (three_matches ! 2) = Metadata_missing"
    by (simp add: three_matches_def)
  have 3: "match_metadata (none_metadata_matches ! 1) = Metadata_None"
    by (simp add: none_metadata_matches_def)
  have 4: "\<exists>res. similar_item (three_matches ! 0) = Inr res \<and> res_text res = PStr ''first''"
    by (simp add: three_matches_def similar_item_cases dict_get_def)
  from sentinel_for_missing_text_unless_metadata_None [of "three_matches ! 1"] 1
    sentinel_for_missing_text_unless_metadata_None [of "three_matches ! 2"] 2
    sentinel_for_missing_text_unless_metadata_None [of "none_metadata_matches ! 1"] 3 4
  show ?thesis by blast
qed

section \<open>The insert path\<close>

text \<open>
  Claim C4. For an insert of text \<open>T\<close> with metadata \<open>M\<close> (the empty mapping when no
  metadata is given): every upsert it sends carries one vector whose id is the generated
  identifier and whose metadata is \<open>M\<close> with the key \<^verbatim>\<open>text\<close> bound to \<open>T\<close>, a value
  the caller gave under that key being overwritten; an insert that returns has sent that
  upsert and returns the same identifier; and an insert that passes validation, has an
  embedding key and is answered by the services does send that upsert and does return the
  generated identifier.
\<close>

theorem upsert_payload_and_returned_id:
  assumes "r = insert_text w text metadata api_key index_name namespace openai_key pinecone_host s"
  shows "(\<forall>ev \<in> set (calls r). is_upsert_call ev \<longrightarrow>
            (\<exists>index emb mo items.
               ev = Upsert_call index
                      [\<lparr>uv_id = uuid4 w, uv_values = emb, uv_metadata = mo,
                        uv_metadata_items = items\<rparr>] namespace
               \<and> items = AList.update ''text'' text (items_of (heap s) metadata)
               \<and> map_of items = (map_of (items_of (heap s) metadata))(''text'' \<mapsto> text)))
       \<and> (\<forall>vid. outcome r = Inr vid \<longrightarrow>
             vid = uuid4 w \<and> (\<exists>ev \<in> set (calls r). is_upsert_call ev))
       \<and> (validate_insert_params (heap s) text metadata api_key
               (index_name_or_env (os_environ s) index_name) = Inr ()
           \<and> truthy (heap s) (py_or (heap s) openai_key (os_getenv (os_environ s) ''OPENAI_API_KEY''))
           \<and> (\<forall>ev. failure w ev = None)
           \<and> (\<forall>k inp mdl. embeddings_create w k inp mdl \<noteq> Inr []) \<longrightarrow>
             outcome r = Inr (uuid4 w)
             \<and> (\<exists>index emb mo.
                  Upsert_call index
                    [\<lparr>uv_id = uuid4 w, uv_values = emb, uv_metadata = mo,
                      uv_metadata_items = AList.update ''text'' text (items_of (heap s) metadata)\<rparr>]
                    namespace \<in> set (calls r)))"
proof -
  have sent: "(\<forall>ev \<in> set (calls r). is_upsert_call ev \<longrightarrow>
            (\<exists>index emb mo items.
               ev = Upsert_call index
                      [\<lparr>uv_id = uuid4 w, uv_values = emb, uv_metadata = mo,
                        uv_metadata_items = items\<rparr>] namespace
               \<and> items = AList.update ''text'' text (items_of (heap s) metadata)
               \<and> map_of items = (map_of (items_of (heap s) metadata))(''text'' \<mapsto> text)))
       \<and> (\<forall>vid. outcome r = Inr vid \<longrightarrow>
             vid = uuid4 w \<and> (\<exists>ev \<in> set (calls r). is_upsert_call ev))"
    using insert_cases [OF assms]
  proof (elim disjE exE conjE, goal_cases)
    case (1 e)
    then show ?case by simp
  next
    case (2 e pk)
    then show ?case by simp
  next
    case (3 e pk H)
    then show ?case by simp
  next
    case prems: (4 pk H okk)
    from insert_on_index_payload [OF refl prems(4), of w H "text" namespace okk s] prems(1)
    show ?case by (auto simp: update_conv')
  qed
  have returns: "outcome r = Inr (uuid4 w)
             \<and> (\<exists>index emb mo.
                  Upsert_call index
                    [\<lparr>uv_id = uuid4 w, uv_values = emb, uv_metadata = mo,
                      uv_metadata_items = AList.update ''text'' text (items_of (heap s) metadata)\<rparr>]
                    namespace \<in> set (calls r))"
    if valid: "validate_insert_params (heap s) text metadata api_key
               (index_name_or_env (os_environ s) index_name) = Inr ()"
      and key: "truthy (heap s) (py_or (heap s) openai_key (os_getenv (os_environ s) ''OPENAI_API_KEY''))"
      and answered: "\<forall>ev. failure w ev = None"
      and data: "\<forall>k inp mdl. embeddings_create w k inp mdl \<noteq> Inr []"
  proof -
    let ?pk = "py_or (heap s) api_key (os_getenv (os_environ s) ''PINECONE_API_KEY'')"
    let ?okk = "py_or (heap s) openai_key (os_getenv (os_environ s) ''OPENAI_API_KEY'')"
    from validate_insert_key [OF valid] have pk: "truthy (heap s) ?pk"
      by (simp add: py_or_def)
    from validate_insert_ok [OF valid] have m: "metadata \<noteq> PNone \<longrightarrow> isinstance_dict metadata"
      by blast
    from answered have "failure w (Pinecone_call ?pk) = None" by blast
    then have P: "pinecone_Pinecone w ?pk = Inr ()"
      by (auto dest: exn_of_None)
    have I: "\<forall>H. pinecone_Index w H = Inr ()"
    proof
      fix H
      from answered have "failure w (Index_call H) = None" by blast
      then show "pinecone_Index w H = Inr ()" by (auto dest: exn_of_None)
    qed
    from insert_with_keys_ok [OF pk key P I]
    obtain H where "insert_with_keys w text metadata (index_name_or_env (os_environ s) index_name)
        namespace ?pk ?okk
        (py_or (heap s) pinecone_host (os_getenv (os_environ s) ''PINECONE_HOST'')) s
      = after [Pinecone_call ?pk, Index_call H]
          (insert_on_index w H text metadata namespace ?okk s)"
      by blast
    with assms insert_valid [OF valid]
    have r: "r = after [Pinecone_call ?pk, Index_call H]
          (insert_on_index w H text metadata namespace ?okk s)"
      by simp
    from answered
    have "failure w (Embeddings_create_call ?okk [text] ''text-embedding-3-small'') = None"
      by blast
    then obtain d where "embeddings_create w ?okk [text] ''text-embedding-3-small'' = Inr d"
      by (auto dest: exn_of_None)
    with data obtain emb rest
      where E: "embeddings_create w ?okk [text] ''text-embedding-3-small'' = Inr (emb # rest)"
      by (cases d) auto
    have U: "\<forall>vs. index_upsert w H vs namespace = Inr ()"
    proof
      fix vs
      from answered have "failure w (Upsert_call H vs namespace) = None" by blast
      then show "index_upsert w H vs namespace = Inr ()" by (auto dest: exn_of_None)
    qed
    from insert_on_index_ok [where s = s, OF refl m E U] r show ?thesis by auto
  qed
  from sent returns show ?thesis by blast
qed

theorem upsert_payload_and_returned_id_witness:
  "outcome (example_insert good_world (PDictRef 0)) = Inr ''id-1''
   \<and> ''id-1'' = uuid4 good_world
   \<and> (\<exists>ev \<in> set (calls (example_insert good_world (PDictRef 0))). is_upsert_call ev)
   \<and> (\<exists>index emb mo items.
         calls (example_insert good_world (PDictRef 0)) ! 3
           = Upsert_call index
               [\<lparr>uv_id = uuid4 good_world, uv_values = emb, uv_metadata = mo,
                 uv_metadata_items = items\<rparr>] (PStr [])
         \<and> items = [(''text'', PStr ''hi''), (''category'', PStr ''x'')])
   \<and> outcome (example_insert good_world PNone) = Inr (uuid4 good_world)
   \<and> (\<exists>index emb mo.
         Upsert_call index
           [\<lparr>uv_id = uuid4 good_world, uv_values = emb, uv_metadata = mo,
             uv_metadata_items = [(''text'', PStr ''hi'')]\<rparr>] (PStr [])
         \<in> set (calls (example_insert good_world PNone)))"
proof -
  let ?r = "example_insert good_world (PDictRef 0)"
  have out: "outcome ?r = Inr ''id-1''"
    by (simp add: eval_defs)
  have ev: "calls ?r ! 3 \<in> set (calls ?r)" "is_upsert_call (calls ?r ! 3)"
    by (simp_all add: eval_defs)
  have items: "AList.update ''text'' (PStr ''hi'') (items_of (heap metadata_state) (PDictRef 0))
      = [(''text'', PStr ''hi''), (''category'', PStr ''x'')]"
    "AList.update ''text'' (PStr ''hi'') (items_of (heap metadata_state) PNone)
      = [(''text'', PStr ''hi'')]"
    by (simp_all add: metadata_state_def empty_state_def)
  have valid: "validate_insert_params (heap metadata_state) (PStr ''hi'') PNone (PStr ''pk'')
      (index_name_or_env (os_environ metadata_state) (PStr ''idx'')) = Inr ()"
    "truthy (heap metadata_state)
      (py_or (heap metadata_state) (PStr ''sk'')
         (os_getenv (os_environ metadata_state) ''OPENAI_API_KEY''))"
    by (simp_all add: validate_insert_params_def index_name_or_env_def strip_def isspace_def
        py_or_def)
  have answered: "\<forall>ev. failure good_world ev = None"
  proof
    fix ev show "failure good_world ev = None"
      by (cases ev) (simp_all add: good_world_def exn_of_def)
  qed
  have data: "\<forall>k inp mdl. embeddings_create good_world k inp mdl \<noteq> Inr []"
    by (simp add: good_world_def)
  note T = upsert_payload_and_returned_id [OF example_insert_def, of good_world "PDictRef 0"]
  note N = upsert_payload_and_returned_id [OF example_insert_def, of good_world PNone]
  from T out have "''id-1'' = uuid4 good_world"
    "\<exists>ev \<in> set (calls ?r). is_upsert_call ev"
    by blast+
  moreover from T ev items(1)
  have "\<exists>index emb mo items.
         calls ?r ! 3
           = Upsert_call index
               [\<lparr>uv_id = uuid4 good_world, uv_values = emb, uv_metadata = mo,
                 uv_metadata_items = items\<rparr>] (PStr [])
         \<and> items = [(''text'', PStr ''hi''), (''category'', PStr ''x'')]"
    by metis
  moreover from N valid answered data
  have "outcome (example_insert good_world PNone) = Inr (uuid4 good_world)
     \<and> (\<exists>index emb mo.
         Upsert_call index
           [\<lparr>uv_id = uuid4 good_world, uv_values = emb, uv_metadata = mo,
             uv_metadata_items = AList.update ''text'' (PStr ''hi'')
               (items_of (heap metadata_state) PNone)\<rparr>] (PStr [])
         \<in> set (calls (example_insert good_world PNone)))"
    by blast
  ultimately show ?thesis using out unfolding items(2) by blast
qed

text \<open>
  Claim C9. When the embedding step of an insert yields no vector (the embedding service
  raises, or answers with no data), the insert raises (the service's own exception when it
  raised), no upsert is attempted, and no dict object is changed.
\<close>

theorem failed_embed_attempts_no_upsert:
  assumes "r = insert_text w text metadata api_key index_name namespace openai_key pinecone_host s"
    and "Embeddings_create_call key inp mdl \<in> set (calls r)"
    and "\<forall>emb rest. embeddings_create w key inp mdl \<noteq> Inr (emb # rest)"
  shows "(\<exists>e. outcome r = Inl e)
       \<and> (\<forall>e. embeddings_create w key inp mdl = Inl e \<longrightarrow> outcome r = Inl e)
       \<and> (\<forall>ev \<in> set (calls r). \<not> is_upsert_call ev)
       \<and> heap (final r) = heap s"
  using insert_cases [OF assms(1)]
proof (elim disjE exE conjE, goal_cases)
  case (1 e)
  with assms(2) show ?case by simp
next
  case (2 e pk)
  with assms(2) show ?case by simp
next
  case (3 e pk H)
  with assms(2) show ?case by simp
next
  case prems: (4 pk H okk)
  from assms(2) prems(1)
  have "Embeddings_create_call key inp mdl
          \<in> set (calls (insert_on_index w H text metadata namespace okk s))"
    by simp
  from insert_on_index_embed_fails [OF refl prems(4) this assms(3)] prems(1)
  show ?case by simp
qed

theorem failed_embed_attempts_no_upsert_witness:
  "outcome (example_insert embed_down_world (PDictRef 0)) = Inl (ServiceError ''rate limit'')
   \<and> list_all (\<lambda>ev. \<not> is_upsert_call ev)
         (calls (example_insert embed_down_world (PDictRef 0)))
   \<and> heap (final (example_insert embed_down_world (PDictRef 0))) = heap metadata_state"
proof -
  have 1: "Embeddings_create_call (PStr ''sk'') [PStr ''hi''] ''text-embedding-3-small''
             \<in> set (calls (example_insert embed_down_world (PDictRef 0)))"
    by (simp add: eval_defs)
  have 2: "embeddings_create embed_down_world (PStr ''sk'') [PStr ''hi'']
             ''text-embedding-3-small'' = Inl (ServiceError ''rate limit'')"
    by (simp add: embed_down_world_def good_world_def)
  then have 3: "\<forall>emb rest. embeddings_create embed_down_world (PStr ''sk'') [PStr ''hi'']
             ''text-embedding-3-small'' \<noteq> Inr (emb # rest)"
    by simp
  from failed_embed_attempts_no_upsert [OF example_insert_def 1 3] 2 show ?thesis
    by (simp add: list_all_iff)
qed

text \<open>
  Claim C10. An insert that is given a metadata dict and returns has changed that very
  object: afterwards the caller's dict holds the key \<^verbatim>\<open>text\<close> bound to the inserted text
  (its other items as before), no other dict object was changed or made, and the upsert was
  given the caller's object itself, not a copy.
\<close>

theorem metadata_mutated_in_place:
  assumes "r = insert_text w text (PDictRef a) api_key index_name namespace openai_key
                 pinecone_host s"
    and "outcome r = Inr vid"
  shows "heap (final r) a = AList.update ''text'' text (heap s a)
       \<and> map_of (heap (final r) a) ''text'' = Some text
       \<and> (\<forall>b. b \<noteq> a \<longrightarrow> heap (final r) b = heap s b)
       \<and> next_free (final r) = next_free s
       \<and> (\<exists>index emb. Upsert_call index
              [\<lparr>uv_id = vid, uv_values = emb, uv_metadata = PDictRef a,
                uv_metadata_items = heap (final r) a\<rparr>] namespace \<in> set (calls r))"
  using insert_cases [OF assms(1)]
proof (elim disjE exE conjE, goal_cases)
  case (1 e)
  with assms(2) show ?case by simp
next
  case (2 e pk)
  with assms(2) show ?case by simp
next
  case (3 e pk H)
  with assms(2) show ?case by simp
next
  case prems: (4 pk H okk)
  let ?r' = "insert_on_index w H text (PDictRef a) namespace okk s"
  from prems(1) have r: "outcome r = outcome ?r'" "final r = final ?r'"
    "set (calls ?r') \<subseteq> set (calls r)"
    by auto
  from assms(2) r(1) have "outcome ?r' = Inr vid" by simp
  from insert_on_index_in_place [OF refl this]
  obtain emb where h: "heap (final ?r') a = AList.update ''text'' text (heap s a)"
      "\<forall>b. b \<noteq> a \<longrightarrow> heap (final ?r') b = heap s b"
      "next_free (final ?r') = next_free s"
      "Upsert_call H [\<lparr>uv_id = vid, uv_values = emb, uv_metadata = PDictRef a,
          uv_metadata_items = heap (final ?r') a\<rparr>] namespace \<in> set (calls ?r')"
    by blast
  from h(4) r(3) have "Upsert_call H [\<lparr>uv_id = vid, uv_values = emb, uv_metadata = PDictRef a,
          uv_metadata_items = heap (final r) a\<rparr>] namespace \<in> set (calls r)"
    unfolding r(2) by blast
  then have "\<exists>index emb. Upsert_call index
              [\<lparr>uv_id = vid, uv_values = emb, uv_metadata = PDictRef a,
                uv_metadata_items = heap (final r) a\<rparr>] namespace \<in> set (calls r)"
    by blast
  with h(1-3) show ?case unfolding r(2) by (simp add: update_conv')
qed

theorem metadata_mutated_in_place_witness:
  "heap metadata_state 0 = [(''text'', PStr ''other''), (''category'', PStr ''x'')]
   \<and> heap (final (example_insert good_world (PDictRef 0))) 0
       = [(''text'', PStr ''hi''), (''category'', PStr ''x'')]
   \<and> map_of (heap (final (example_insert good_world (PDictRef 0))) 0) ''text'' = Some (PStr ''hi'')
   \<and> next_free (final (example_insert good_world (PDictRef 0))) = next_free metadata_state"
proof -
  have out: "outcome (example_insert good_world (PDictRef 0)) = Inr ''id-1''"
    by (simp add: eval_defs)
  have before: "heap metadata_state 0 = [(''text'', PStr ''other''), (''category'', PStr ''x'')]"
    by (simp add: metadata_state_def empty_state_def)
  then have upd: "AList.update ''text'' (PStr ''hi'') (heap metadata_state 0)
      = [(''text'', PStr ''hi''), (''category'', PStr ''x'')]"
    by simp
  from metadata_mutated_in_place [OF example_insert_def out] before upd
  show ?thesis by simp
qed

section \<open>Credentials and failures of the services\<close>

text \<open>
  Claim C2, evaluated on the code. Both functions hand the \<^verbatim>\<open>api_key\<close> argument to the
  validator before the fallback \<^verbatim>\<open>api_key or os.getenv("PINECONE_API_KEY")\<close> is computed.
  So a call without an explicit store key, on otherwise valid arguments, raises
  \<^verbatim>\<open>ValueError("API key is required")\<close> although the environment holds the key and the
  fallback would have found it; no call into a client library is made.
\<close>

theorem store_key_in_environment_is_rejected:
  assumes "os_environ s ''PINECONE_API_KEY'' = Some key" and "key \<noteq> []"
    and "\<not> truthy (heap s) api_key"
    and "isinstance_str query_text" and "strip (str_of query_text) \<noteq> []"
    and "isinstance_int top_k" and "0 < int_of top_k"
    and "metadata \<noteq> PNone \<longrightarrow> isinstance_dict metadata"
    and "rs = search_similar_texts w query_text top_k api_key index_name namespace openai_key
                pinecone_host s"
    and "ri = insert_text w query_text metadata api_key index_name namespace openai_key
                pinecone_host s"
  shows "truthy (heap s) (py_or (heap s) api_key (os_getenv (os_environ s) ''PINECONE_API_KEY''))
       \<and> outcome rs = Inl (ValueError ''API key is required'') \<and> calls rs = []
       \<and> outcome ri = Inl (ValueError ''API key is required'') \<and> calls ri = []"
proof -
  from assms(4,5) have q: "truthy (heap s) query_text"
    by (cases query_text) (auto dest: strip_nonempty)
  have "validate_search_params (heap s) query_text top_k api_key
          (index_name_or_env (os_environ s) index_name) = Inl (ValueError ''API key is required'')"
    using q assms(3-7) by (simp add: validate_search_params_def)
  from search_invalid [OF this] assms(9)
  have 1: "rs = (Inl (ValueError ''API key is required''), [], s)" by simp
  have "validate_insert_params (heap s) query_text metadata api_key
          (index_name_or_env (os_environ s) index_name) = Inl (ValueError ''API key is required'')"
    using q assms(3-5,8) by (auto simp: validate_insert_params_def)
  from insert_invalid [OF this] assms(10)
  have 2: "ri = (Inl (ValueError ''API key is required''), [], s)" by simp
  have "truthy (heap s) (py_or (heap s) api_key (os_getenv (os_environ s) ''PINECONE_API_KEY''))"
    using assms(1-3) by (simp add: py_or_def os_getenv_def)
  with 1 2 show ?thesis by simp
qed

theorem store_key_in_environment_is_rejected_witness:
  "os_environ env_state ''PINECONE_API_KEY'' = Some ''pk-env''
   \<and> outcome (search_similar_texts good_world (PStr ''hello'') (PInt 5) PNone (PStr ''idx'')
        (PStr []) (PStr ''sk'') PNone env_state) = Inl (ValueError ''API key is required'')
   \<and> outcome (insert_text good_world (PStr ''hello'') PNone PNone (PStr ''idx'')
        (PStr []) (PStr ''sk'') PNone env_state) = Inl (ValueError ''API key is required'')"
proof -
  have e: "os_environ env_state ''PINECONE_API_KEY'' = Some ''pk-env''" "''pk-env'' \<noteq> []"
    by (simp_all add: env_state_def empty_state_def)
  have a: "\<not> truthy (heap env_state) PNone" by simp
  have q: "isinstance_str (PStr ''hello'')" "strip (str_of (PStr ''hello'')) \<noteq> []"
    by (simp_all add: strip_def isspace_def)
  have k: "isinstance_int (PInt 5)" "0 < int_of (PInt 5)" by simp_all
  have m: "PNone \<noteq> PNone \<longrightarrow> isinstance_dict PNone" by simp
  from store_key_in_environment_is_rejected [OF e a q k m refl refl] e(1)
  show ?thesis by blast
qed




end
